theory Spec2Isabelle
  imports Main "HOL-Library.Word"
begin

section \<open>PhoenixGuard module signature verification (src/utils/pgmodverify.c)\<close>

text \<open>
  A shallow embedding of \<^verbatim>\<open>pgmodverify.c\<close>. A module file is the list of its bytes;
  \<^verbatim>\<open>long\<close> values (file sizes and offsets, LP64) are integers, which cannot overflow
  here because a file is shorter than \<open>2 ^ 63\<close> bytes and \<open>sig_len\<close> is below
  \<open>2 ^ 32\<close>. The OpenSSL primitives and the file system are parameters of the model.
\<close>

subsection \<open>Bytes, the magic string and the trailer structure\<close>

type_synonym byte = "8 word"

text \<open>\<^verbatim>\<open>#define MODULE_SIG_STRING "~Module signature appended~\n"\<close>\<close>

definition MODULE_SIG_STRING :: "byte list" where
  "MODULE_SIG_STRING = map of_char ''~Module signature appended~'' @ [0x0A]"

definition MODULE_SIG_STRING_LEN :: nat where
  "MODULE_SIG_STRING_LEN = length MODULE_SIG_STRING"

text \<open>
  \<^verbatim>\<open>struct module_signature\<close>: five \<^verbatim>\<open>uint8_t\<close> fields, three bytes of padding and a
  \<^verbatim>\<open>uint32_t\<close> at offset 8, so \<^verbatim>\<open>sizeof(struct module_signature)\<close> is 12.
\<close>

record module_signature =
  algo :: byte
  hash :: byte
  id_type :: byte
  signer_len :: byte
  key_id_len :: byte
  pad :: "byte list"
  sig_len :: "32 word"

definition sizeof_module_signature :: nat where
  "sizeof_module_signature = 12"

text \<open>
  The structure is filled by \<^verbatim>\<open>fread\<close> straight from the file, so \<^verbatim>\<open>sig_len\<close> is read in
  the byte order of the machine the code runs on.
\<close>

datatype endian = LittleEndian | BigEndian

definition u32_of_bytes :: "endian \<Rightarrow> byte list \<Rightarrow> 32 word" where
  "u32_of_bytes e bs = (case e of LittleEndian \<Rightarrow> word_rcat (rev bs) | BigEndian \<Rightarrow> word_rcat bs)"

definition read_module_signature :: "endian \<Rightarrow> byte list \<Rightarrow> module_signature" where
  "read_module_signature e bs =
     \<lparr> algo = bs ! 0, hash = bs ! 1, id_type = bs ! 2, signer_len = bs ! 3,
       key_id_len = bs ! 4, pad = take 3 (drop 5 bs),
       sig_len = u32_of_bytes e (take 4 (drop 8 bs)) \<rparr>"

subsection \<open>Reading the module file\<close>

text \<open>
  \<^verbatim>\<open>fseek(f, off, SEEK_SET)\<close> followed by \<^verbatim>\<open>fread(buf, 1, n, f)\<close>: the bytes read; the
  count \<^verbatim>\<open>fread\<close> returns is their number, smaller than \<open>n\<close> at the end of the file.
\<close>

definition fread_at :: "byte list \<Rightarrow> nat \<Rightarrow> nat \<Rightarrow> byte list" where
  "fread_at f off n = take n (drop off f)"

text \<open>
  \<^verbatim>\<open>pg_find_module_signature\<close>: the returned \<^verbatim>\<open>long\<close>, and the structure behind the
  \<^verbatim>\<open>sig\<close> pointer (\<open>None\<close> as long as nothing was read into it).
\<close>

definition pg_find_module_signature :: "endian \<Rightarrow> byte list \<Rightarrow> int \<times> module_signature option" where
  "pg_find_module_signature e f =
     (let file_size = int (length f) in
      if file_size < int MODULE_SIG_STRING_LEN + int sizeof_module_signature then (- 1, None)
      else
        let magic_buffer = fread_at f (nat (file_size - int MODULE_SIG_STRING_LEN)) MODULE_SIG_STRING_LEN in
        if length magic_buffer \<noteq> MODULE_SIG_STRING_LEN then (- 1, None)
        else if magic_buffer \<noteq> MODULE_SIG_STRING then (- 1, None)
        else
          let sig_offset = file_size - int MODULE_SIG_STRING_LEN - int sizeof_module_signature;
              raw = fread_at f (nat sig_offset) sizeof_module_signature in
          if length raw \<noteq> sizeof_module_signature then (- 1, None)
          else
            let sg = read_module_signature e raw in
            if sig_len sg = 0 \<or> uint (sig_len sg) > file_size div 2 then (- 1, Some sg)
            else (sig_offset - uint (sig_len sg), Some sg))"

text \<open>\<^verbatim>\<open>pg_extract_signature\<close>; \<open>malloc_ok\<close> says whether \<^verbatim>\<open>malloc(sig->sig_len)\<close> succeeds.\<close>

definition pg_extract_signature :: "bool \<Rightarrow> byte list \<Rightarrow> module_signature \<Rightarrow> int \<Rightarrow> byte list option" where
  "pg_extract_signature malloc_ok f sg sig_data_offset =
     (if \<not> malloc_ok then None
      else
        let sig_data = fread_at f (nat sig_data_offset) (unat (sig_len sg)) in
        if length sig_data \<noteq> unat (sig_len sg) then None else Some sig_data)"

subsection \<open>The platform: OpenSSL, the C library and the machine\<close>

datatype EVP_MD = EVP_sha1 | EVP_sha224 | EVP_sha256 | EVP_sha384 | EVP_sha512

text \<open>
  The OpenSSL functions the code calls. A function that returns a pointer returns an
  option (\<open>None\<close> for \<^verbatim>\<open>NULL\<close>); a digest operation that returns 0 for failure and
  otherwise updates its context returns the new context as an option; the verify
  operations return their \<^verbatim>\<open>int\<close>. A verify context is determined by the key it was
  made from, so \<open>EVP_PKEY_CTX_new\<close> only says whether the context could be made and the
  two verify operations take the key.
\<close>

record ('cert, 'pkey, 'ctx) openssl =
  PEM_read_X509 :: "byte list \<Rightarrow> 'cert option"
  d2i_X509_fp :: "byte list \<Rightarrow> 'cert option"
  X509_digest :: "'cert \<Rightarrow> EVP_MD \<Rightarrow> byte list option"
  X509_get_pubkey :: "'cert \<Rightarrow> 'pkey option"
  EVP_PKEY_CTX_new :: "'pkey \<Rightarrow> bool"
  EVP_PKEY_verify_init :: "'pkey \<Rightarrow> int"
  EVP_PKEY_verify :: "'pkey \<Rightarrow> byte list \<Rightarrow> byte list \<Rightarrow> int"
  EVP_MD_CTX_new :: "'ctx option"
  EVP_DigestInit_ex :: "'ctx \<Rightarrow> EVP_MD \<Rightarrow> 'ctx option"
  EVP_DigestUpdate :: "'ctx \<Rightarrow> byte list \<Rightarrow> 'ctx option"
  EVP_DigestFinal_ex :: "'ctx \<Rightarrow> byte list option"

text \<open>
  The rest of the platform: the byte order, the file system (\<open>fopen\<close> gives the bytes of
  a file that can be opened, \<open>access_R_OK\<close> is \<^verbatim>\<open>access(path, R_OK) == 0\<close>), the clock,
  and whether each allocation succeeds: the ones whose failure the code checks, and
  \<^verbatim>\<open>strdup\<close> of a given string, whose result the code stores unchecked.
  \<^verbatim>\<open>malloc(64)\<close> for the fingerprint, which the code writes through unchecked, succeeds.
\<close>

record ('cert, 'pkey, 'ctx) platform = "('cert, 'pkey, 'ctx) openssl" +
  byte_order :: endian
  fopen :: "string \<Rightarrow> byte list option"
  access_R_OK :: "string \<Rightarrow> bool"
  time_now :: int
  calloc_result_ok :: bool
  malloc_sig_data_ok :: bool
  malloc_hash_ok :: bool
  malloc_entry_ok :: bool
  strdup_ok :: "string \<Rightarrow> bool"

text \<open>\<^verbatim>\<open>strdup(s)\<close>: a copy of the string, or \<^verbatim>\<open>NULL\<close> when the copy cannot be allocated.\<close>

definition strdup :: "('cert, 'pkey, 'ctx) platform \<Rightarrow> string \<Rightarrow> string option" where
  "strdup env s = (if strdup_ok env s then Some s else None)"

subsection \<open>The certificate cache\<close>

record 'cert cert_cache_entry_t =
  cert :: 'cert
  fingerprint :: string

text \<open>
  The global variables. The linked list \<^verbatim>\<open>cert_cache\<close> is the list of its entries from
  the head on, following \<^verbatim>\<open>next\<close>.
\<close>

record 'cert globals =
  cert_cache :: "'cert cert_cache_entry_t list"
  openssl_initialized :: int

definition pg_init_openssl :: "'cert globals \<Rightarrow> int \<times> 'cert globals" where
  "pg_init_openssl st =
     (if openssl_initialized st \<noteq> 0 then (1, st) else (1, st\<lparr>openssl_initialized := 1\<rparr>))"

text \<open>\<^verbatim>\<open>sprintf(p, "%02x", b)\<close> prints two lowercase hexadecimal digits.\<close>

definition hex_digit :: "nat \<Rightarrow> char" where
  "hex_digit n = ''0123456789abcdef'' ! n"

definition sprintf_02x :: "byte \<Rightarrow> string" where
  "sprintf_02x b = [hex_digit (unat b div 16), hex_digit (unat b mod 16)]"

text \<open>
  The string that the loop over \<^verbatim>\<open>md\<close> and the final terminator leave at
  \<^verbatim>\<open>entry->fingerprint\<close>. Where these writes land is the subject of
  \<open>write_fingerprint\<close> below.
\<close>

definition fingerprint_string :: "byte list \<Rightarrow> string" where
  "fingerprint_string md = concat (map sprintf_02x md)"

definition pg_load_certificate ::
  "('cert, 'pkey, 'ctx) platform \<Rightarrow> string \<Rightarrow> 'cert globals \<Rightarrow> int \<times> 'cert globals" where
  "pg_load_certificate env cert_path st0 =
     (case pg_init_openssl st0 of (ok, st) \<Rightarrow>
      if ok = 0 then (0, st)
      else
        (case fopen env cert_path of
           None \<Rightarrow> (0, st)
         | Some bytes \<Rightarrow>
             let c = (case PEM_read_X509 env bytes of
                        Some c \<Rightarrow> Some c
                      | None \<Rightarrow>
                          (case fopen env cert_path of
                             None \<Rightarrow> None
                           | Some bytes' \<Rightarrow> d2i_X509_fp env bytes'))
             in (case c of
                   None \<Rightarrow> (0, st)
                 | Some c \<Rightarrow>
                     if \<not> malloc_entry_ok env then (0, st)
                     else
                       let fp = (case X509_digest env c EVP_sha256 of
                                   Some md \<Rightarrow> fingerprint_string md
                                 | None \<Rightarrow> ''unknown'')
                       in (1, st\<lparr>cert_cache := \<lparr>cert = c, fingerprint = fp\<rparr> # cert_cache st\<rparr>))))"

text \<open>
  \<^verbatim>\<open>pg_load_certificates_from_dir\<close>: \<^verbatim>\<open>snprintf\<close> into \<^verbatim>\<open>char cert_path[512]\<close> keeps
  at most 511 characters of the path.
\<close>

definition cert_files :: "string list" where
  "cert_files = [''user_secureboot.crt'', ''user_secureboot.pem'', ''user_secureboot.der'',
                 ''phoenixguard.crt'', ''phoenixguard.pem'']"

fun load_loop ::
  "('cert, 'pkey, 'ctx) platform \<Rightarrow> string \<Rightarrow> string list \<Rightarrow> int \<times> 'cert globals \<Rightarrow> int \<times> 'cert globals" where
  "load_loop env cert_dir [] (loaded, st) = (loaded, st)"
| "load_loop env cert_dir (name # names) (loaded, st) =
     (let cert_path = take 511 (cert_dir @ ''/'' @ name) in
      if access_R_OK env cert_path then
        (case pg_load_certificate env cert_path st of (r, st') \<Rightarrow>
           if r \<noteq> 0 then load_loop env cert_dir names (loaded + 1, st')
           else load_loop env cert_dir names (loaded, st'))
      else load_loop env cert_dir names (loaded, st))"

definition pg_load_certificates_from_dir ::
  "('cert, 'pkey, 'ctx) platform \<Rightarrow> string \<Rightarrow> 'cert globals \<Rightarrow> int \<times> 'cert globals" where
  "pg_load_certificates_from_dir env cert_dir st = load_loop env cert_dir cert_files (0, st)"

subsection \<open>Hashing the module and verifying against one certificate\<close>

text \<open>
  The \<^verbatim>\<open>while (bytes_remaining > 0)\<close> loop of \<^verbatim>\<open>pg_calculate_module_hash\<close>, reading
  from position \<open>pos\<close> of the file in pieces of at most \<^verbatim>\<open>sizeof(buffer)\<close> = 8192 bytes.
  \<open>None\<close> is the \<^verbatim>\<open>return NULL\<close> inside the loop.
\<close>

function hash_loop ::
  "('cert, 'pkey, 'ctx) platform \<Rightarrow> byte list \<Rightarrow> nat \<Rightarrow> int \<Rightarrow> 'ctx \<Rightarrow> 'ctx option" where
  "hash_loop env f pos bytes_remaining ctx =
     (if bytes_remaining > 0 then
        let to_read = (if bytes_remaining > 8192 then 8192 else nat bytes_remaining);
            buffer = take to_read (drop pos f);
            bytes_read = length buffer
        in if bytes_read = 0 then Some ctx
           else
             (case EVP_DigestUpdate env ctx buffer of
                None \<Rightarrow> None
              | Some ctx' \<Rightarrow>
                  hash_loop env f (pos + bytes_read) (bytes_remaining - int bytes_read) ctx')
      else Some ctx)"
  by pat_completeness auto
termination
  by (relation "measure (\<lambda>(env, f, pos, bytes_remaining, ctx). nat bytes_remaining)") auto

definition pg_calculate_module_hash ::
  "('cert, 'pkey, 'ctx) platform \<Rightarrow> byte list \<Rightarrow> int \<Rightarrow> EVP_MD \<Rightarrow> byte list option" where
  "pg_calculate_module_hash env f content_end hash_algo =
     (case EVP_MD_CTX_new env of
        None \<Rightarrow> None
      | Some ctx0 \<Rightarrow>
          (case EVP_DigestInit_ex env ctx0 hash_algo of
             None \<Rightarrow> None
           | Some ctx1 \<Rightarrow>
               if \<not> malloc_hash_ok env then None
               else
                 (case hash_loop env f 0 content_end ctx1 of
                    None \<Rightarrow> None
                  | Some ctx2 \<Rightarrow> EVP_DigestFinal_ex env ctx2)))"

definition pg_verify_signature_with_cert ::
  "('cert, 'pkey, 'ctx) platform \<Rightarrow> byte list \<Rightarrow> byte list \<Rightarrow> 'cert \<Rightarrow> int" where
  "pg_verify_signature_with_cert env hash_bytes signature c =
     (case X509_get_pubkey env c of
        None \<Rightarrow> 0
      | Some pkey \<Rightarrow>
          if \<not> EVP_PKEY_CTX_new env pkey then 0
          else if EVP_PKEY_verify_init env pkey \<le> 0 then 0
          else if EVP_PKEY_verify env pkey signature hash_bytes = 1 then 1
          else 0)"

subsection \<open>The main verification function\<close>

record pg_verify_result_t =
  valid :: int
  has_signature :: int
  signer :: "string option"
  algorithm :: "string option"
  hash_algorithm :: "string option"
  error_message :: "string option"
  signature_offset :: int
  signature_size :: nat
  verification_time :: int

text \<open>What \<^verbatim>\<open>calloc(1, sizeof(pg_verify_result_t))\<close> returns: every field zero or \<^verbatim>\<open>NULL\<close>.\<close>

definition calloc_result :: pg_verify_result_t where
  "calloc_result =
     \<lparr> valid = 0, has_signature = 0, signer = None, algorithm = None, hash_algorithm = None,
       error_message = None, signature_offset = 0, signature_size = 0, verification_time = 0 \<rparr>"

text \<open>The \<^verbatim>\<open>switch (sig.hash)\<close>: the digest and the name whose copy is stored in the result.\<close>

definition hash_switch :: "byte \<Rightarrow> (EVP_MD \<times> string) option" where
  "hash_switch h =
     (if h = 0 then Some (EVP_sha1, ''sha1'')
      else if h = 1 then Some (EVP_sha224, ''sha224'')
      else if h = 2 then Some (EVP_sha256, ''sha256'')
      else if h = 3 then Some (EVP_sha384, ''sha384'')
      else if h = 4 then Some (EVP_sha512, ''sha512'')
      else None)"

text \<open>
  The \<^verbatim>\<open>for\<close> loop over the cache, from \<^verbatim>\<open>cert_cache\<close> along \<^verbatim>\<open>next\<close>, on the pair of
  \<^verbatim>\<open>result\<close> and \<^verbatim>\<open>verified\<close>; it stops at the first entry that verifies.
\<close>

fun verify_loop ::
  "('cert, 'pkey, 'ctx) platform \<Rightarrow> byte list \<Rightarrow> byte list \<Rightarrow> 'cert cert_cache_entry_t list \<Rightarrow>
     pg_verify_result_t \<times> int \<Rightarrow> pg_verify_result_t \<times> int" where
  "verify_loop env module_hash sig_data [] (result, verified) = (result, verified)"
| "verify_loop env module_hash sig_data (cert_entry # rest) (result, verified) =
     (if pg_verify_signature_with_cert env module_hash sig_data (cert cert_entry) \<noteq> 0 then
        (result\<lparr>valid := 1, signer := strdup env (fingerprint cert_entry),
                algorithm := strdup env ''rsa''\<rparr>, 1)
      else verify_loop env module_hash sig_data rest (result, verified))"

text \<open>
  \<^verbatim>\<open>pg_verify_module_signature\<close>; \<open>None\<close> is the \<^verbatim>\<open>NULL\<close> returned when the result cannot
  be allocated. A non-negative return of \<open>pg_find_module_signature\<close> always comes with
  the structure read (\<open>pg_find_module_signature_read\<close> below), so the branch for an
  unread structure is never taken.
\<close>

definition pg_verify_module_signature ::
  "('cert, 'pkey, 'ctx) platform \<Rightarrow> 'cert globals \<Rightarrow> string \<Rightarrow> pg_verify_result_t option" where
  "pg_verify_module_signature env st module_path =
     (if \<not> calloc_result_ok env then None
      else
        let result = calloc_result\<lparr>verification_time := time_now env\<rparr> in
        (case fopen env module_path of
           None \<Rightarrow> Some (result\<lparr>error_message := strdup env ''Failed to open module file''\<rparr>)
         | Some f \<Rightarrow>
             (case pg_find_module_signature (byte_order env) f of (sig_data_offset, sgo) \<Rightarrow>
                if sig_data_offset < 0 then
                  Some (result\<lparr>has_signature := 0,
                               error_message := strdup env ''No signature found in module''\<rparr>)
                else
                  (case sgo of
                     None \<Rightarrow> None
                   | Some sg \<Rightarrow>
                       let result = result\<lparr>has_signature := 1, signature_offset := sig_data_offset,
                                           signature_size := unat (sig_len sg)\<rparr>
                       in (case pg_extract_signature (malloc_sig_data_ok env) f sg sig_data_offset of
                             None \<Rightarrow>
                               Some (result\<lparr>error_message :=
                                       strdup env ''Failed to extract signature data''\<rparr>)
                           | Some sig_data \<Rightarrow>
                               (case hash_switch (hash sg) of
                                  None \<Rightarrow>
                                    Some (result\<lparr>error_message := strdup env ''Unknown hash algorithm''\<rparr>)
                                | Some (hash_algo, name) \<Rightarrow>
                                    let result = result\<lparr>hash_algorithm := strdup env name\<rparr>
                                    in (case pg_calculate_module_hash env f sig_data_offset hash_algo of
                                          None \<Rightarrow>
                                            Some (result\<lparr>error_message :=
                                                    strdup env ''Failed to calculate module hash''\<rparr>)
                                        | Some module_hash \<Rightarrow>
                                            (case verify_loop env module_hash sig_data (cert_cache st)
                                                    (result, 0) of
                                               (result, verified) \<Rightarrow>
                                                 if verified = 0 then
                                                   Some (result\<lparr>error_message := strdup env
                                                     ''Signature verification failed against all certificates''\<rparr>)
                                                 else Some result))))))))"

subsection \<open>Where the fingerprint is written\<close>

text \<open>
  \<^verbatim>\<open>entry->fingerprint = malloc(64)\<close> is a buffer of 64 characters with indices 0 to 63.
  A store into the buffer at an index outside it is reported instead of performed.
\<close>

datatype mem_error = OutOfBounds nat

definition store_char :: "string \<Rightarrow> nat \<Rightarrow> char \<Rightarrow> mem_error + string" where
  "store_char buf i c = (if i < length buf then Inr (buf[i := c]) else Inl (OutOfBounds i))"

fun store_chars :: "string \<Rightarrow> nat \<Rightarrow> string \<Rightarrow> mem_error + string" where
  "store_chars buf i [] = Inr buf"
| "store_chars buf i (c # cs) =
     (case store_char buf i c of Inl e \<Rightarrow> Inl e | Inr buf' \<Rightarrow> store_chars buf' (Suc i) cs)"

text \<open>
  \<^verbatim>\<open>sprintf(entry->fingerprint + off, "%02x", b)\<close> stores the two digits and the
  terminating NUL character.
\<close>

definition sprintf_02x_at :: "string \<Rightarrow> nat \<Rightarrow> byte \<Rightarrow> mem_error + string" where
  "sprintf_02x_at buf off b = store_chars buf off (sprintf_02x b @ [CHR 0x00])"

text \<open>The loop \<^verbatim>\<open>for (i = 0; i < md_len; i++)\<close>, at index \<open>i\<close> with the bytes from \<^verbatim>\<open>md[i]\<close> on.\<close>

fun fingerprint_loop :: "string \<Rightarrow> nat \<Rightarrow> byte list \<Rightarrow> mem_error + string" where
  "fingerprint_loop buf i [] = Inr buf"
| "fingerprint_loop buf i (b # bs) =
     (case sprintf_02x_at buf (i * 2) b of
        Inl e \<Rightarrow> Inl e
      | Inr buf' \<Rightarrow> fingerprint_loop buf' (i + 1) bs)"

text \<open>
  The whole \<^verbatim>\<open>if (X509_digest(...)) ... else strcpy(entry->fingerprint, "unknown")\<close>, on
  the buffer as \<^verbatim>\<open>malloc\<close> returned it and the digest that \<^verbatim>\<open>X509_digest\<close> produced.
\<close>

definition write_fingerprint :: "string \<Rightarrow> byte list option \<Rightarrow> mem_error + string" where
  "write_fingerprint buf digest =
     (case digest of
        Some md \<Rightarrow>
          (case fingerprint_loop buf 0 md of
             Inl e \<Rightarrow> Inl e
           | Inr buf' \<Rightarrow> store_char buf' (length md * 2) (CHR 0x00))
      | None \<Rightarrow> store_chars buf 0 (''unknown'' @ [CHR 0x00]))"

text \<open>The C string that starts at the beginning of a buffer.\<close>

definition c_string :: "string \<Rightarrow> string" where
  "c_string buf = takeWhile (\<lambda>c. c \<noteq> CHR 0x00) buf"

subsection \<open>A small platform for running the model\<close>

text \<open>
  A deterministic stand-in for OpenSSL: a certificate is a number read from the first
  byte of its file, its digest is that byte 32 times, the digest of a module is its first
  byte, and a signature verifies under any key when it equals the digest. The sample
  modules have the content \<open>[1, 2]\<close> and the one-byte signature \<open>[1]\<close>, followed by a
  trailer structure and the magic string.
\<close>

definition sample_module :: "byte list \<Rightarrow> byte list" where
  "sample_module hdr = [1, 2] @ [1] @ hdr @ MODULE_SIG_STRING"

definition sample_files :: "string \<Rightarrow> byte list option" where
  "sample_files p =
     (if p = ''signed.ko'' then Some (sample_module [0, 2, 1, 0, 0, 0, 0, 0, 1, 0, 0, 0])
      else if p = ''algo1.ko'' then Some (sample_module [1, 2, 1, 0, 0, 0, 0, 0, 1, 0, 0, 0])
      else if p = ''padded.ko'' then Some (sample_module [0, 2, 1, 0, 0, 1, 0, 0, 1, 0, 0, 0])
      else if p = ''oversized.ko'' then Some (sample_module [0, 2, 1, 0, 0, 0, 0, 0, 43, 0, 0, 0])
      else if p = ''certs/user_secureboot.crt'' then Some [65]
      else if p = ''certs/phoenixguard.crt'' then Some [66]
      else if p = ''backup/user_secureboot.crt'' then Some [65]
      else None)"

definition sample_platform :: "(nat, nat, byte list) platform" where
  "sample_platform =
     \<lparr> PEM_read_X509 = (\<lambda>bs. case bs of [] \<Rightarrow> None | b # _ \<Rightarrow> Some (unat b)),
       d2i_X509_fp = (\<lambda>bs. None),
       X509_digest = (\<lambda>c md. Some (replicate 32 (of_nat c))),
       X509_get_pubkey = Some,
       EVP_PKEY_CTX_new = (\<lambda>k. True),
       EVP_PKEY_verify_init = (\<lambda>k. 1),
       EVP_PKEY_verify = (\<lambda>k sg h. if sg = h then 1 else 0),
       EVP_MD_CTX_new = Some [],
       EVP_DigestInit_ex = (\<lambda>ctx md. Some []),
       EVP_DigestUpdate = (\<lambda>ctx bs. Some (ctx @ bs)),
       EVP_DigestFinal_ex = (\<lambda>ctx. Some (take 1 ctx)),
       byte_order = LittleEndian,
       fopen = sample_files,
       access_R_OK = (\<lambda>p. sample_files p \<noteq> None),
       time_now = 0,
       calloc_result_ok = True,
       malloc_sig_data_ok = True,
       malloc_hash_ok = True,
       malloc_entry_ok = True,
       strdup_ok = (\<lambda>s. True) \<rparr>"

text \<open>The same platform when no string can be duplicated.\<close>

definition no_strdup_platform :: "(nat, nat, byte list) platform" where
  "no_strdup_platform = sample_platform\<lparr>strdup_ok := (\<lambda>s. False)\<rparr>"

text \<open>The globals at program start, and after loading the two sample certificates.\<close>

definition no_certs :: "nat globals" where
  "no_certs = \<lparr> cert_cache = [], openssl_initialized = 0 \<rparr>"

definition two_certs :: "nat globals" where
  "two_certs = snd (pg_load_certificates_from_dir sample_platform ''certs'' no_certs)"

section \<open>Properties\<close>

subsection \<open>The trailer parser\<close>

lemma MODULE_SIG_STRING_LEN_eq: "MODULE_SIG_STRING_LEN = 28"
  by (simp add: MODULE_SIG_STRING_LEN_def MODULE_SIG_STRING_def)

lemma length_MODULE_SIG_STRING: "length MODULE_SIG_STRING = 28"
  by (simp add: MODULE_SIG_STRING_def)

text \<open>The parser in closed form: the reads never come up short on a file of 40 bytes or more.\<close>

lemma pg_find_module_signature_unfold:
  "pg_find_module_signature e f =
     (if 40 \<le> length f \<and> drop (length f - 28) f = MODULE_SIG_STRING then
        let sg = read_module_signature e (take 12 (drop (length f - 40) f)) in
        if sig_len sg = 0 \<or> int (length f) div 2 < uint (sig_len sg) then (- 1, Some sg)
        else (int (length f) - 40 - uint (sig_len sg), Some sg)
      else (- 1, None))"
  by (auto simp: pg_find_module_signature_def Let_def MODULE_SIG_STRING_LEN_eq
      sizeof_module_signature_def fread_at_def nat_diff_distrib length_MODULE_SIG_STRING)

lemma find_trailer:
  assumes "length hb = 12"
  shows "pg_find_module_signature e (body @ hb @ MODULE_SIG_STRING) =
     (let sg = read_module_signature e hb in
        if sig_len sg = 0 \<or> (int (length body) + 40) div 2 < uint (sig_len sg) then (- 1, Some sg)
        else (int (length body) - uint (sig_len sg), Some sg))"
  using assms
  by (simp add: pg_find_module_signature_unfold Let_def length_MODULE_SIG_STRING)

lemma pg_find_module_signature_read:
  "pg_find_module_signature e f = (off, sgo) \<Longrightarrow> 0 \<le> off \<Longrightarrow> \<exists>sg. sgo = Some sg"
  by (auto simp: pg_find_module_signature_unfold Let_def split: if_splits)




subsection \<open>The verification result\<close>

lemma verify_loop_cases:
  "verify_loop env h sd es (r, v) = (r', v') \<Longrightarrow>
     (v' = v \<and> r' = r) \<or>
     (v' = 1 \<and> (\<exists>en \<in> set es. r' = r\<lparr>valid := 1, signer := strdup env (fingerprint en),
                                         algorithm := strdup env ''rsa''\<rparr>))"
  by (induction es) (auto split: if_splits)

text \<open>When some entry verifies, the loop ends with \<open>verified = 1\<close> at such an entry.\<close>

lemma verify_loop_hit:
  assumes "en \<in> set es" and "pg_verify_signature_with_cert env h sd (cert en) \<noteq> 0"
    and "verify_loop env h sd es (r, v) = (r', v')"
  shows "v' = 1 \<and> valid r' = 1 \<and> algorithm r' = strdup env ''rsa''
         \<and> has_signature r' = has_signature r"
  using assms by (induction es) (auto split: if_splits)

text \<open>
  The verifier returns a result whenever the result can be allocated: the branch for an
  unread structure in \<open>pg_verify_module_signature\<close> is never taken.
\<close>

lemma pg_verify_module_signature_returns:
  "calloc_result_ok env \<Longrightarrow> \<exists>r. pg_verify_module_signature env st module_path = Some r"
proof -
  assume ok: "calloc_result_ok env"
  show ?thesis
  proof (cases "fopen env module_path")
    case None
    with ok show ?thesis by (simp add: pg_verify_module_signature_def Let_def)
  next
    case (Some f)
    obtain off sgo where fd: "pg_find_module_signature (byte_order env) f = (off, sgo)"
      by (cases "pg_find_module_signature (byte_order env) f")
    show ?thesis
    proof (cases "off < 0")
      case True
      with ok Some fd show ?thesis by (simp add: pg_verify_module_signature_def Let_def)
    next
      case False
      with pg_find_module_signature_read[OF fd] obtain sg where "sgo = Some sg" by auto
      with ok Some fd False show ?thesis
        by (auto simp: pg_verify_module_signature_def Let_def split: option.splits prod.splits)
    qed
  qed
qed

text \<open>The sample store and two runs of the verifier on the sample platform.\<close>

lemma two_certs_eq:
  "two_certs = \<lparr> cert_cache =
      [\<lparr>cert = 66, fingerprint = ''4242424242424242424242424242424242424242424242424242424242424242''\<rparr>,
       \<lparr>cert = 65, fingerprint = ''4141414141414141414141414141414141414141414141414141414141414141''\<rparr>],
     openssl_initialized = 1 \<rparr>"
  by code_simp

lemma sample_signed_result:
  "pg_verify_module_signature sample_platform two_certs ''signed.ko'' =
     Some \<lparr> valid = 1, has_signature = 1,
            signer = Some ''4242424242424242424242424242424242424242424242424242424242424242'',
            algorithm = Some ''rsa'', hash_algorithm = Some ''sha256'', error_message = None,
            signature_offset = 2, signature_size = 1, verification_time = 0 \<rparr>"
  by code_simp

lemma sample_missing_result:
  "pg_verify_module_signature sample_platform two_certs ''missing.ko'' =
     Some \<lparr> valid = 0, has_signature = 0, signer = None, algorithm = None, hash_algorithm = None,
            error_message = Some ''Failed to open module file'',
            signature_offset = 0, signature_size = 0, verification_time = 0 \<rparr>"
  by code_simp

lemma sample_oversized_result:
  "pg_verify_module_signature sample_platform two_certs ''oversized.ko'' =
     Some \<lparr> valid = 0, has_signature = 0, signer = None, algorithm = None, hash_algorithm = None,
            error_message = Some ''No signature found in module'',
            signature_offset = 0, signature_size = 0, verification_time = 0 \<rparr>"
  by code_simp

lemma sample_empty_store_result:
  "pg_verify_module_signature sample_platform no_certs ''signed.ko'' =
     Some \<lparr> valid = 0, has_signature = 1, signer = None, algorithm = None,
            hash_algorithm = Some ''sha256'',
            error_message = Some ''Signature verification failed against all certificates'',
            signature_offset = 2, signature_size = 1, verification_time = 0 \<rparr>"
  by code_simp

lemma sample_signed_steps:
  "fopen sample_platform ''signed.ko'' = Some (sample_module [0, 2, 1, 0, 0, 0, 0, 0, 1, 0, 0, 0])"
  "pg_find_module_signature (byte_order sample_platform)
     (sample_module [0, 2, 1, 0, 0, 0, 0, 0, 1, 0, 0, 0]) =
     (2, Some (read_module_signature LittleEndian [0, 2, 1, 0, 0, 0, 0, 0, 1, 0, 0, 0]))"
  "pg_extract_signature (malloc_sig_data_ok sample_platform)
     (sample_module [0, 2, 1, 0, 0, 0, 0, 0, 1, 0, 0, 0])
     (read_module_signature LittleEndian [0, 2, 1, 0, 0, 0, 0, 0, 1, 0, 0, 0]) 2 = Some [1]"
  "hash_switch (hash (read_module_signature LittleEndian [0, 2, 1, 0, 0, 0, 0, 0, 1, 0, 0, 0])) =
     Some (EVP_sha256, ''sha256'')"
  "pg_calculate_module_hash sample_platform
     (sample_module [0, 2, 1, 0, 0, 0, 0, 0, 1, 0, 0, 0]) 2 EVP_sha256 = Some [1]"
  by code_simp+

text \<open>
  When every \<^verbatim>\<open>strdup\<close> succeeds, the result is consistent: \<open>valid\<close> implies
  \<open>has_signature\<close>, no error message and the three names present, and the error
  message is present exactly when \<open>valid\<close> is false.
\<close>

lemma result_consistency_when_strdup_succeeds:
  assumes "pg_verify_module_signature env st module_path = Some r"
    and "\<And>s. strdup_ok env s"
  shows "(valid r \<noteq> 0 \<longrightarrow> has_signature r \<noteq> 0 \<and> error_message r = None \<and> signer r \<noteq> None
            \<and> algorithm r \<noteq> None \<and> hash_algorithm r \<noteq> None)
         \<and> (error_message r \<noteq> None \<longleftrightarrow> valid r = 0)"
  using assms
  by (auto simp: pg_verify_module_signature_def Let_def calloc_result_def strdup_def
      split: if_splits option.splits prod.splits dest!: verify_loop_cases)

text \<open>
  Claim C5 does not hold of the code. The claim is that in every non-null result
  \<open>valid\<close> implies that \<open>signer\<close>, \<open>algorithm\<close> and \<open>hash_algorithm\<close> are present, and
  that \<open>error_message\<close> is present if and only if \<open>valid\<close> is false. The code stores
  the return value of \<^verbatim>\<open>strdup\<close> in each of these fields without checking it. On a
  platform where \<^verbatim>\<open>strdup\<close> fails, a missing module gives a non-null result with
  \<open>valid\<close> false and no error message, and a module that a cached certificate
  verifies gives a result with \<open>valid\<close> true and signer, algorithm and hash algorithm
  all absent.
\<close>

theorem result_consistency_strdup_failure:
  "pg_verify_module_signature no_strdup_platform two_certs ''missing.ko'' =
     Some \<lparr> valid = 0, has_signature = 0, signer = None, algorithm = None, hash_algorithm = None,
            error_message = None,
            signature_offset = 0, signature_size = 0, verification_time = 0 \<rparr>
   \<and> pg_verify_module_signature no_strdup_platform two_certs ''signed.ko'' =
     Some \<lparr> valid = 1, has_signature = 1, signer = None, algorithm = None, hash_algorithm = None,
            error_message = None,
            signature_offset = 2, signature_size = 1, verification_time = 0 \<rparr>"
  by code_simp

text \<open>
  Claim C4 as stated fails: the result comes from \<^verbatim>\<open>calloc\<close> and no path without a
  signature stores into \<open>signature_offset\<close>, so the field is 0 there, not \<open>-1\<close>.
\<close>

theorem no_signature_fields_counterexample:
  "pg_verify_module_signature sample_platform two_certs ''missing.ko'' =
     Some \<lparr> valid = 0, has_signature = 0, signer = None, algorithm = None, hash_algorithm = None,
            error_message = Some ''Failed to open module file'',
            signature_offset = 0, signature_size = 0, verification_time = 0 \<rparr>
   \<and> (0 :: int) \<noteq> - 1"
  by code_simp

text \<open>
  Claim C4, amended. For every verification that returns a result with
  \<open>has_signature\<close> false (file unopenable, too short, magic absent or \<open>sig_len\<close>
  rejected), the result has \<open>valid\<close> false, \<open>signature_offset = 0\<close> and
  \<open>signature_size = 0\<close>.
\<close>

theorem no_signature_fields_amended:
  assumes "pg_verify_module_signature env st module_path = Some r" and "has_signature r = 0"
  shows "valid r = 0 \<and> signature_offset r = 0 \<and> signature_size r = 0"
  using assms
  by (auto simp: pg_verify_module_signature_def Let_def calloc_result_def
      split: if_splits option.splits prod.splits dest!: verify_loop_cases)

theorem no_signature_fields_amended_witness:
  "pg_verify_module_signature sample_platform two_certs ''missing.ko'' =
     Some \<lparr> valid = 0, has_signature = 0, signer = None, algorithm = None, hash_algorithm = None,
            error_message = Some ''Failed to open module file'',
            signature_offset = 0, signature_size = 0, verification_time = 0 \<rparr>"
  using no_signature_fields_amended [OF sample_missing_result] sample_missing_result by simp

text \<open>
  Claim C2 as stated fails: \<open>pg_find_module_signature\<close> answers a rejected \<open>sig_len\<close>
  with \<open>-1\<close>, the same value as for a missing magic string, and the caller reports
  every negative value as a missing signature. The sample file of 43 bytes ends with
  the magic string and has \<open>sig_len = 43\<close>.
\<close>

theorem oversized_sig_len_counterexample:
  "sample_files ''oversized.ko'' =
     Some ([1, 2] @ [1] @ [0, 2, 1, 0, 0, 0, 0, 0, 43, 0, 0, 0] @ MODULE_SIG_STRING)
   \<and> length ([1, 2] @ [1] @ [0, 2, 1, 0, 0, 0, 0, 0, 43, 0, 0, 0 :: byte] @ MODULE_SIG_STRING) = 43
   \<and> sig_len (read_module_signature LittleEndian [0, 2, 1, 0, 0, 0, 0, 0, 43, 0, 0, 0]) = 43
   \<and> pg_verify_module_signature sample_platform two_certs ''oversized.ko'' =
     Some \<lparr> valid = 0, has_signature = 0, signer = None, algorithm = None, hash_algorithm = None,
            error_message = Some ''No signature found in module'',
            signature_offset = 0, signature_size = 0, verification_time = 0 \<rparr>"
  by code_simp

text \<open>
  Claim C2, amended. For every file of \<open>N \<ge> 40\<close> bytes whose final 28 bytes equal the
  magic string but whose trailer has \<open>sig_len = 0\<close>, \<open>sig_len > N / 2\<close> or
  \<open>N - 40 - sig_len < 0\<close>, the verify result has \<open>has_signature\<close> false and
  \<open>valid\<close> false, with the error message \<open>No signature found in module\<close> (when the
  \<^verbatim>\<open>strdup\<close> of that message succeeds): the code has no malformed-trailer outcome.
\<close>

theorem oversized_sig_len_amended:
  assumes "pg_verify_module_signature env st module_path = Some r"
    and "fopen env module_path = Some f"
    and "40 \<le> length f"
    and "drop (length f - 28) f = MODULE_SIG_STRING"
    and "sg = read_module_signature (byte_order env) (take 12 (drop (length f - 40) f))"
    and "sig_len sg = 0 \<or> int (length f) div 2 < uint (sig_len sg)
           \<or> int (length f) - 40 - uint (sig_len sg) < 0"
    and "strdup_ok env ''No signature found in module''"
  shows "has_signature r = 0 \<and> valid r = 0
         \<and> error_message r = Some ''No signature found in module''"
  using assms
  by (auto simp: pg_verify_module_signature_def pg_find_module_signature_unfold Let_def
      calloc_result_def strdup_def split: if_splits)

theorem oversized_sig_len_amended_witness:
  "fopen sample_platform ''oversized.ko'' = Some (sample_module [0, 2, 1, 0, 0, 0, 0, 0, 43, 0, 0, 0])
   \<and> 40 \<le> length (sample_module [0, 2, 1, 0, 0, 0, 0, 0, 43, 0, 0, 0])
   \<and> int (length (sample_module [0, 2, 1, 0, 0, 0, 0, 0, 43, 0, 0, 0])) div 2
        < uint (sig_len (read_module_signature LittleEndian [0, 2, 1, 0, 0, 0, 0, 0, 43, 0, 0, 0]))
   \<and> strdup_ok sample_platform ''No signature found in module''
   \<and> pg_verify_module_signature sample_platform two_certs ''oversized.ko'' =
     Some \<lparr> valid = 0, has_signature = 0, signer = None, algorithm = None, hash_algorithm = None,
            error_message = Some ''No signature found in module'',
            signature_offset = 0, signature_size = 0, verification_time = 0 \<rparr>"
proof -
  let ?f = "sample_module [0, 2, 1, 0, 0, 0, 0, 0, 43, 0, 0, 0]"
  let ?sg = "read_module_signature LittleEndian [0, 2, 1, 0, 0, 0, 0, 0, 43, 0, 0, 0]"
  have h2: "fopen sample_platform ''oversized.ko'' = Some ?f"
    by (simp add: sample_platform_def sample_files_def)
  have h3: "40 \<le> length ?f"
    by (simp add: sample_module_def length_MODULE_SIG_STRING)
  have h4: "drop (length ?f - 28) ?f = MODULE_SIG_STRING"
    by (simp add: sample_module_def length_MODULE_SIG_STRING)
  have h5: "?sg = read_module_signature (byte_order sample_platform) (take 12 (drop (length ?f - 40) ?f))"
    by (simp add: sample_module_def length_MODULE_SIG_STRING sample_platform_def)
  have big: "int (length ?f) div 2 < uint (sig_len ?sg)"
    by (simp add: sample_module_def length_MODULE_SIG_STRING read_module_signature_def
        u32_of_bytes_def word_rcat_def)
  then have h6: "sig_len ?sg = 0 \<or> int (length ?f) div 2 < uint (sig_len ?sg)
           \<or> int (length ?f) - 40 - uint (sig_len ?sg) < 0"
    by blast
  have h7: "strdup_ok sample_platform ''No signature found in module''"
    by (simp add: sample_platform_def)
  show ?thesis
    using oversized_sig_len_amended [OF sample_oversized_result h2 h3 h4 h5 h6 h7]
      sample_oversized_result h2 h3 big h7
    by simp
qed

text \<open>
  Claim C6 as stated fails: with no certificate in the cache the loop body never runs
  and the message is the one for a failed verification; \<open>No certificates loaded\<close> is
  printed only by the test program, before it calls the verifier.
\<close>

theorem empty_store_counterexample:
  "cert_cache no_certs = []
   \<and> pg_verify_module_signature sample_platform no_certs ''signed.ko'' =
     Some \<lparr> valid = 0, has_signature = 1, signer = None, algorithm = None,
            hash_algorithm = Some ''sha256'',
            error_message = Some ''Signature verification failed against all certificates'',
            signature_offset = 2, signature_size = 1, verification_time = 0 \<rparr>
   \<and> ''Signature verification failed against all certificates'' \<noteq> ''No certificates loaded''"
  by code_simp

text \<open>
  Claim C6, amended. For every module carrying a signature trailer that the parser
  accepts, with a known hash id, whose signature bytes and digest are obtained,
  verifying it against an empty certificate cache yields \<open>has_signature\<close> true,
  \<open>valid\<close> false and the error message
  \<open>Signature verification failed against all certificates\<close> (when the \<^verbatim>\<open>strdup\<close> of
  that message succeeds).
\<close>

theorem empty_store_amended:
  assumes "cert_cache st = []"
    and "pg_verify_module_signature env st module_path = Some r"
    and "fopen env module_path = Some f"
    and "pg_find_module_signature (byte_order env) f = (off, Some sg)"
    and "0 \<le> off"
    and "pg_extract_signature (malloc_sig_data_ok env) f sg off = Some sig_data"
    and "hash_switch (hash sg) = Some (hash_algo, name)"
    and "pg_calculate_module_hash env f off hash_algo = Some module_hash"
    and "strdup_ok env ''Signature verification failed against all certificates''"
  shows "has_signature r = 1 \<and> valid r = 0
         \<and> error_message r = Some ''Signature verification failed against all certificates''"
  using assms
  by (auto simp: pg_verify_module_signature_def Let_def calloc_result_def strdup_def
      split: if_splits)

theorem empty_store_amended_witness:
  "cert_cache no_certs = []
   \<and> strdup_ok sample_platform ''Signature verification failed against all certificates''
   \<and> pg_verify_module_signature sample_platform no_certs ''signed.ko'' =
     Some \<lparr> valid = 0, has_signature = 1, signer = None, algorithm = None,
            hash_algorithm = Some ''sha256'',
            error_message = Some ''Signature verification failed against all certificates'',
            signature_offset = 2, signature_size = 1, verification_time = 0 \<rparr>"
proof -
  have e: "cert_cache no_certs = []" by (simp add: no_certs_def)
  have z: "(0 :: int) \<le> 2" by simp
  have d: "strdup_ok sample_platform ''Signature verification failed against all certificates''"
    by (simp add: sample_platform_def)
  show ?thesis
    using empty_store_amended [OF e sample_empty_store_result sample_signed_steps(1,2) z
        sample_signed_steps(3,4,5) d] e d sample_empty_store_result
    by simp
qed

subsection \<open>The certificate cache\<close>

lemma pg_load_certificate_success:
  assumes "pg_load_certificate env cert_path st = (r, st')" and "r \<noteq> 0"
  shows "r = 1 \<and> (\<exists>en. cert_cache st' = en # cert_cache st)"
  using assms
  by (auto simp: pg_load_certificate_def pg_init_openssl_def Let_def
      split: if_splits option.splits)


lemma load_first:
  "pg_load_certificate sample_platform ''certs/user_secureboot.crt'' no_certs =
     (1, \<lparr>cert_cache = [\<lparr>cert = 65, fingerprint = ''4141414141414141414141414141414141414141414141414141414141414141''\<rparr>], openssl_initialized = 1\<rparr>)"
  by code_simp

lemma load_second:
  "pg_load_certificate sample_platform ''certs/phoenixguard.crt''
     \<lparr>cert_cache = [\<lparr>cert = 65, fingerprint = ''4141414141414141414141414141414141414141414141414141414141414141''\<rparr>], openssl_initialized = 1\<rparr> = (1, two_certs)"
  by code_simp


text \<open>
  Claim C3 as stated fails: \<open>pg_load_certificate\<close> puts the new entry at the head of
  the list and the verifier walks the list from the head, so of two certificates that
  both verify, the one loaded last is reported. On the sample platform the
  certificate 65 is loaded first and 66 second, both verify the sample module, and the
  signer is the fingerprint of 66.
\<close>

theorem certificate_order_counterexample:
  "pg_load_certificate sample_platform ''certs/user_secureboot.crt'' no_certs =
     (1, \<lparr>cert_cache = [\<lparr>cert = 65, fingerprint = ''4141414141414141414141414141414141414141414141414141414141414141''\<rparr>], openssl_initialized = 1\<rparr>)
   \<and> pg_load_certificate sample_platform ''certs/phoenixguard.crt''
       \<lparr>cert_cache = [\<lparr>cert = 65, fingerprint = ''4141414141414141414141414141414141414141414141414141414141414141''\<rparr>], openssl_initialized = 1\<rparr> = (1, two_certs)
   \<and> pg_verify_signature_with_cert sample_platform [1] [1] 65 = 1
   \<and> pg_verify_signature_with_cert sample_platform [1] [1] 66 = 1
   \<and> pg_verify_module_signature sample_platform two_certs ''signed.ko'' =
     Some \<lparr> valid = 1, has_signature = 1, signer = Some ''4242424242424242424242424242424242424242424242424242424242424242'',
            algorithm = Some ''rsa'', hash_algorithm = Some ''sha256'', error_message = None,
            signature_offset = 2, signature_size = 1, verification_time = 0 \<rparr>
   \<and> ''4242424242424242424242424242424242424242424242424242424242424242'' \<noteq> ''4141414141414141414141414141414141414141414141414141414141414141''"
  by code_simp

text \<open>
  Claim C3, amended. For every module with a valid signature and every store whose
  certificates were loaded in the order A, then B, such that both A and B verify the
  signature, the cache holds B before A and the verify result's signer field equals
  B's fingerprint (when the \<^verbatim>\<open>strdup\<close> of that fingerprint succeeds): the first matching
  certificate in cache order, which is the reverse of the load order, wins.
\<close>

theorem certificate_order_amended:
  assumes "pg_load_certificate env path_A st0 = (1, st1)"
    and "pg_load_certificate env path_B st1 = (1, st2)"
    and "A = hd (cert_cache st1)"
    and "B = hd (cert_cache st2)"
    and "fopen env module_path = Some f"
    and "pg_find_module_signature (byte_order env) f = (off, Some sg)"
    and "0 \<le> off"
    and "pg_extract_signature (malloc_sig_data_ok env) f sg off = Some sig_data"
    and "hash_switch (hash sg) = Some (hash_algo, name)"
    and "pg_calculate_module_hash env f off hash_algo = Some module_hash"
    and "pg_verify_signature_with_cert env module_hash sig_data (cert A) \<noteq> 0"
    and "pg_verify_signature_with_cert env module_hash sig_data (cert B) \<noteq> 0"
    and "pg_verify_module_signature env st2 module_path = Some r"
    and "strdup_ok env (fingerprint B)"
  shows "cert_cache st2 = B # A # cert_cache st0 \<and> valid r = 1 \<and> signer r = Some (fingerprint B)"
proof -
  have c1: "cert_cache st1 = A # cert_cache st0"
    using pg_load_certificate_success[OF assms(1)] assms(3) by auto
  have c2: "cert_cache st2 = B # cert_cache st1"
    using pg_load_certificate_success[OF assms(2)] assms(4) by auto
  show ?thesis
    using assms(5-14) c1 c2
    by (auto simp: pg_verify_module_signature_def Let_def strdup_def split: if_splits)
qed

theorem certificate_order_amended_witness:
  "pg_load_certificate sample_platform ''certs/user_secureboot.crt'' no_certs =
     (1, \<lparr>cert_cache = [\<lparr>cert = 65, fingerprint = ''4141414141414141414141414141414141414141414141414141414141414141''\<rparr>], openssl_initialized = 1\<rparr>)
   \<and> pg_load_certificate sample_platform ''certs/phoenixguard.crt''
       \<lparr>cert_cache = [\<lparr>cert = 65, fingerprint = ''4141414141414141414141414141414141414141414141414141414141414141''\<rparr>], openssl_initialized = 1\<rparr> = (1, two_certs)
   \<and> pg_verify_signature_with_cert sample_platform [1] [1] 65 \<noteq> 0
   \<and> pg_verify_signature_with_cert sample_platform [1] [1] 66 \<noteq> 0
   \<and> strdup_ok sample_platform ''4242424242424242424242424242424242424242424242424242424242424242''
   \<and> cert_cache two_certs = [\<lparr>cert = 66, fingerprint = ''4242424242424242424242424242424242424242424242424242424242424242''\<rparr>, \<lparr>cert = 65, fingerprint = ''4141414141414141414141414141414141414141414141414141414141414141''\<rparr>]
   \<and> map_option signer (pg_verify_module_signature sample_platform two_certs ''signed.ko'') =
       Some (Some ''4242424242424242424242424242424242424242424242424242424242424242'')"
proof -
  let ?st1 = "\<lparr>cert_cache = [\<lparr>cert = 65, fingerprint = ''4141414141414141414141414141414141414141414141414141414141414141''\<rparr>], openssl_initialized = 1\<rparr> :: nat globals"
  have a: "\<lparr>cert = 65, fingerprint = ''4141414141414141414141414141414141414141414141414141414141414141''\<rparr> = hd (cert_cache ?st1)"
    by simp
  have b: "\<lparr>cert = 66, fingerprint = ''4242424242424242424242424242424242424242424242424242424242424242''\<rparr> = hd (cert_cache two_certs)"
    by (simp add: two_certs_eq)
  have va: "pg_verify_signature_with_cert sample_platform [1] [1]
              (cert \<lparr>cert = 65 :: nat, fingerprint = ''4141414141414141414141414141414141414141414141414141414141414141''\<rparr>) \<noteq> 0"
    by code_simp
  have vb: "pg_verify_signature_with_cert sample_platform [1] [1]
              (cert \<lparr>cert = 66 :: nat, fingerprint = ''4242424242424242424242424242424242424242424242424242424242424242''\<rparr>) \<noteq> 0"
    by code_simp
  have z: "(0 :: int) \<le> 2" by simp
  have d: "strdup_ok sample_platform (fingerprint \<lparr>cert = 66 :: nat, fingerprint = ''4242424242424242424242424242424242424242424242424242424242424242''\<rparr>)"
    by (simp add: sample_platform_def)
  show ?thesis
    using certificate_order_amended [OF load_first load_second a b sample_signed_steps(1,2) z
        sample_signed_steps(3,4,5) va vb sample_signed_result d]
      load_first load_second va vb sample_signed_result d
    by (simp add: two_certs_eq)
qed





subsection \<open>Header bytes that the verifier does not consult\<close>

declare hash_loop.simps [simp del]

lemma hash_loop_done: "bytes_remaining \<le> 0 \<Longrightarrow> hash_loop env f pos bytes_remaining ctx = Some ctx"
  by (subst hash_loop.simps) simp

lemma hash_loop_step:
  "0 < bytes_remaining \<Longrightarrow>
     hash_loop env f pos bytes_remaining ctx =
       (let buffer = take (min 8192 (nat bytes_remaining)) (drop pos f) in
        if buffer = [] then Some ctx
        else case EVP_DigestUpdate env ctx buffer of
               None \<Rightarrow> None
             | Some ctx' \<Rightarrow>
                 hash_loop env f (pos + length buffer) (bytes_remaining - int (length buffer)) ctx')"
proof -
  assume pos: "0 < bytes_remaining"
  have "(if bytes_remaining > 8192 then 8192 else nat bytes_remaining) = min 8192 (nat bytes_remaining)"
    by (simp add: min_def) linarith
  then show ?thesis
    using pos by (subst hash_loop.simps) (simp add: Let_def)
qed

text \<open>The hash loop reads only the bytes below \<open>pos + bytes_remaining\<close>.\<close>

lemma hash_loop_prefix:
  "pos + nat bytes_remaining \<le> length body \<Longrightarrow>
     hash_loop env (body @ rest) pos bytes_remaining ctx = hash_loop env body pos bytes_remaining ctx"
proof (induction "nat bytes_remaining" arbitrary: pos bytes_remaining ctx rule: less_induct)
  case less
  show ?case
  proof (cases "0 < bytes_remaining")
    case False
    then show ?thesis by (simp add: hash_loop_done)
  next
    case True
    define n where "n = min 8192 (nat bytes_remaining)"
    have n: "0 < n" "n \<le> nat bytes_remaining"
      using True by (auto simp: n_def)
    have buf: "take n (drop pos (body @ rest)) = take n (drop pos body)"
      using less.prems n by simp
    have len: "length (take n (drop pos body)) = n"
      using less.prems n by simp
    have ih: "hash_loop env (body @ rest) (pos + n) (bytes_remaining - int n) c =
              hash_loop env body (pos + n) (bytes_remaining - int n) c" for c
      using less.prems n True by (intro less.hyps) auto
    show ?thesis
      using True buf len ih
      by (simp add: hash_loop_step[OF True] Let_def n_def[symmetric] split: option.splits)
  qed
qed

lemma pg_calculate_module_hash_prefix:
  "0 \<le> content_end \<Longrightarrow> nat content_end \<le> length body \<Longrightarrow>
     pg_calculate_module_hash env (body @ rest) content_end hash_algo =
     pg_calculate_module_hash env body content_end hash_algo"
  by (simp add: pg_calculate_module_hash_def hash_loop_prefix split: option.splits)

lemma pg_extract_signature_prefix:
  "0 \<le> off \<Longrightarrow> nat off + unat (sig_len sg) \<le> length body \<Longrightarrow>
     pg_extract_signature ok (body @ rest) sg off =
     (if ok then Some (take (unat (sig_len sg)) (drop (nat off) body)) else None)"
  by (simp add: pg_extract_signature_def fread_at_def Let_def)

text \<open>
  Two files with the same bytes before the trailer structure, the same hash id and the
  same \<open>sig_len\<close> bytes get the same result.
\<close>

lemma pg_verify_module_signature_same_trailer:
  assumes p: "fopen env p = Some (body @ hb @ MODULE_SIG_STRING)"
    and p': "fopen env p' = Some (body @ hb' @ MODULE_SIG_STRING)"
    and len: "length hb = 12" "length hb' = 12"
    and h: "hb ! 1 = hb' ! 1"
    and s: "drop 8 hb = drop 8 hb'"
  shows "pg_verify_module_signature env st p' = pg_verify_module_signature env st p"
proof -
  let ?e = "byte_order env"
  let ?sg = "read_module_signature ?e hb" and ?sg' = "read_module_signature ?e hb'"
  have sl: "sig_len ?sg' = sig_len ?sg" and hh: "hash ?sg' = hash ?sg"
    using h s by (simp_all add: read_module_signature_def)
  show ?thesis
  proof (cases "sig_len ?sg = 0 \<or> (int (length body) + 40) div 2 < uint (sig_len ?sg)
                 \<or> int (length body) - uint (sig_len ?sg) < 0")
    case True
    then show ?thesis
      using p p' len sl
      by (auto simp: pg_verify_module_signature_def find_trailer Let_def)
  next
    case False
    define off where "off = int (length body) - uint (sig_len ?sg)"
    have un: "int (unat (sig_len ?sg)) = uint (sig_len ?sg)"
      by simp
    have off: "0 \<le> off" "nat off + unat (sig_len ?sg) \<le> length body" "nat off \<le> length body"
      using False un unfolding off_def by linarith+
    have f: "pg_find_module_signature ?e (body @ hb @ MODULE_SIG_STRING) = (off, Some ?sg)"
      and f': "pg_find_module_signature ?e (body @ hb' @ MODULE_SIG_STRING) = (off, Some ?sg')"
      using False len sl by (simp_all add: find_trailer Let_def off_def)
    have x: "pg_extract_signature ok (body @ hb' @ MODULE_SIG_STRING) ?sg' off =
             pg_extract_signature ok (body @ hb @ MODULE_SIG_STRING) ?sg off" for ok
      using off sl by (simp add: pg_extract_signature_prefix)
    have c: "pg_calculate_module_hash env (body @ hb' @ MODULE_SIG_STRING) off a =
             pg_calculate_module_hash env (body @ hb @ MODULE_SIG_STRING) off a" for a
      using off by (simp add: pg_calculate_module_hash_prefix)
    show ?thesis
      using off(1)
      by (simp add: pg_verify_module_signature_def p p' f f' x c sl hh Let_def
          cong: option.case_cong)
  qed
qed

text \<open>The messages that the verifier can store.\<close>

lemma error_message_cases:
  assumes "pg_verify_module_signature env st module_path = Some r"
  shows "error_message r \<in> {None, Some ''Failed to open module file'',
           Some ''No signature found in module'', Some ''Failed to extract signature data'',
           Some ''Unknown hash algorithm'', Some ''Failed to calculate module hash'',
           Some ''Signature verification failed against all certificates''}"
  using assms
  by (auto simp: pg_verify_module_signature_def Let_def calloc_result_def strdup_def
      split: if_splits option.splits prod.splits dest!: verify_loop_cases)

lemma sample_module_files:
  "fopen sample_platform ''signed.ko'' =
     Some ([1, 2, 1] @ [0, 2, 1, 0, 0, 0, 0, 0, 1, 0, 0, 0] @ MODULE_SIG_STRING)"
  "fopen sample_platform ''algo1.ko'' =
     Some ([1, 2, 1] @ [0, 2, 1, 0, 0, 0, 0, 0, 1, 0, 0, 0][0 := 1] @ MODULE_SIG_STRING)"
  "fopen sample_platform ''padded.ko'' =
     Some ([1, 2, 1] @ [0, 2, 1, 0, 0, 0, 0, 0, 1, 0, 0, 0][5 := 1, 6 := 0, 7 := 0] @ MODULE_SIG_STRING)"
  by (simp_all add: sample_platform_def sample_files_def sample_module_def)

lemma sample_algo1_steps:
  "pg_find_module_signature (byte_order sample_platform)
     ([1, 2, 1] @ [0, 2, 1, 0, 0, 0, 0, 0, 1, 0, 0, 0][0 := 1] @ MODULE_SIG_STRING) =
     (2, Some (read_module_signature LittleEndian [1, 2, 1, 0, 0, 0, 0, 0, 1, 0, 0, 0]))"
  "pg_extract_signature (malloc_sig_data_ok sample_platform)
     ([1, 2, 1] @ [0, 2, 1, 0, 0, 0, 0, 0, 1, 0, 0, 0][0 := 1] @ MODULE_SIG_STRING)
     (read_module_signature LittleEndian [1, 2, 1, 0, 0, 0, 0, 0, 1, 0, 0, 0]) 2 = Some [1]"
  "hash_switch (hash (read_module_signature LittleEndian [1, 2, 1, 0, 0, 0, 0, 0, 1, 0, 0, 0])) =
     Some (EVP_sha256, ''sha256'')"
  "pg_calculate_module_hash sample_platform
     ([1, 2, 1] @ [0, 2, 1, 0, 0, 0, 0, 0, 1, 0, 0, 0][0 := 1] @ MODULE_SIG_STRING) 2 EVP_sha256 =
     Some [1]"
  "\<lparr>cert = 66, fingerprint = ''4242424242424242424242424242424242424242424242424242424242424242''\<rparr> \<in> set (cert_cache two_certs)"
  "pg_verify_signature_with_cert sample_platform [1] [1]
     (cert \<lparr>cert = 66 :: nat, fingerprint = ''4242424242424242424242424242424242424242424242424242424242424242''\<rparr>) \<noteq> 0"
  "strdup_ok sample_platform ''rsa''"
  "algo (read_module_signature LittleEndian [1, 2, 1, 0, 0, 0, 0, 0, 1, 0, 0, 0]) = 1"
  by code_simp+

text \<open>
  A module whose trailer is accepted, whose hash id is known, whose signature bytes and
  digest are obtained and whose signature some cached certificate verifies is reported
  valid, with the copy of \<open>rsa\<close> as its algorithm.
\<close>

lemma pg_verify_module_signature_accepts:
  assumes "pg_verify_module_signature env st module_path = Some r"
    and "fopen env module_path = Some f"
    and "pg_find_module_signature (byte_order env) f = (off, Some sg)"
    and "0 \<le> off"
    and "pg_extract_signature (malloc_sig_data_ok env) f sg off = Some sig_data"
    and "hash_switch (hash sg) = Some (hash_algo, name)"
    and "pg_calculate_module_hash env f off hash_algo = Some module_hash"
    and "en \<in> set (cert_cache st)"
    and "pg_verify_signature_with_cert env module_hash sig_data (cert en) \<noteq> 0"
  shows "has_signature r = 1 \<and> valid r = 1 \<and> algorithm r = strdup env ''rsa''"
proof -
  let ?r0 = "calloc_result\<lparr>verification_time := time_now env, has_signature := 1,
               signature_offset := off, signature_size := unat (sig_len sg),
               hash_algorithm := strdup env name\<rparr>"
  obtain r' v' where
    eq: "verify_loop env module_hash sig_data (cert_cache st) (?r0, 0) = (r', v')"
    by (cases "verify_loop env module_hash sig_data (cert_cache st) (?r0, 0)")
  from verify_loop_hit[OF assms(8,9) eq]
  have "v' = 1" "valid r' = 1" "algorithm r' = strdup env ''rsa''" "has_signature r' = 1"
    by simp_all
  with assms(1-7) eq show ?thesis
    by (auto simp: pg_verify_module_signature_def Let_def split: if_splits)
qed

lemma sample_algo1_result:
  "pg_verify_module_signature sample_platform two_certs ''algo1.ko'' =
     Some \<lparr> valid = 1, has_signature = 1, signer = Some ''4242424242424242424242424242424242424242424242424242424242424242'',
            algorithm = Some ''rsa'', hash_algorithm = Some ''sha256'', error_message = None,
            signature_offset = 2, signature_size = 1, verification_time = 0 \<rparr>"
  by code_simp

lemma sample_padded_result:
  "pg_verify_module_signature sample_platform two_certs ''padded.ko'' =
     Some \<lparr> valid = 1, has_signature = 1, signer = Some ''4242424242424242424242424242424242424242424242424242424242424242'',
            algorithm = Some ''rsa'', hash_algorithm = Some ''sha256'', error_message = None,
            signature_offset = 2, signature_size = 1, verification_time = 0 \<rparr>"
  by code_simp

text \<open>
  Claim C7 as stated fails: the verifier never reads \<open>sig.algo\<close> (the code assumes RSA
  for now). The sample module with the algo byte 1 is verified against the cached
  certificates and accepted.
\<close>

theorem algo_byte_counterexample:
  "sample_files ''algo1.ko'' =
     Some ([1, 2] @ [1] @ [1, 2, 1, 0, 0, 0, 0, 0, 1, 0, 0, 0] @ MODULE_SIG_STRING)
   \<and> algo (read_module_signature LittleEndian [1, 2, 1, 0, 0, 0, 0, 0, 1, 0, 0, 0]) = 1
   \<and> pg_verify_module_signature sample_platform two_certs ''algo1.ko'' =
     Some \<lparr> valid = 1, has_signature = 1, signer = Some ''4242424242424242424242424242424242424242424242424242424242424242'',
            algorithm = Some ''rsa'', hash_algorithm = Some ''sha256'', error_message = None,
            signature_offset = 2, signature_size = 1, verification_time = 0 \<rparr>"
  by code_simp

text \<open>
  Claim C7, amended. For every module, the algo byte of the trailer is not consulted:
  replacing it by any value \<open>a\<close> leaves the verify result unchanged, so a module whose
  algo byte is outside \<open>{RSA = 0}\<close> gets the result it would get with the algo byte 0,
  and the error message is never \<open>Unknown public-key algorithm\<close>. Whatever the algo
  byte, when the trailer is accepted, the hash id is known, the signature bytes and the
  digest are obtained, some cached certificate verifies the signature and the
  \<^verbatim>\<open>strdup\<close> of \<open>rsa\<close> succeeds, the result has \<open>has_signature\<close> and \<open>valid\<close> true
  and the algorithm \<open>rsa\<close>.
\<close>

theorem algo_byte_amended:
  assumes "fopen env p = Some (body @ hb @ MODULE_SIG_STRING)"
    and "fopen env p' = Some (body @ hb[0 := a] @ MODULE_SIG_STRING)"
    and "length hb = 12"
  shows "algo (read_module_signature (byte_order env) (hb[0 := a])) = a
         \<and> pg_verify_module_signature env st p' = pg_verify_module_signature env st p
         \<and> (\<forall>r. pg_verify_module_signature env st p' = Some r \<longrightarrow>
                error_message r \<noteq> Some ''Unknown public-key algorithm'')
         \<and> (\<forall>r off sg sig_data hash_algo name module_hash en.
                pg_verify_module_signature env st p' = Some r
                \<and> pg_find_module_signature (byte_order env)
                    (body @ hb[0 := a] @ MODULE_SIG_STRING) = (off, Some sg)
                \<and> 0 \<le> off
                \<and> pg_extract_signature (malloc_sig_data_ok env)
                    (body @ hb[0 := a] @ MODULE_SIG_STRING) sg off = Some sig_data
                \<and> hash_switch (hash sg) = Some (hash_algo, name)
                \<and> pg_calculate_module_hash env
                    (body @ hb[0 := a] @ MODULE_SIG_STRING) off hash_algo = Some module_hash
                \<and> en \<in> set (cert_cache st)
                \<and> pg_verify_signature_with_cert env module_hash sig_data (cert en) \<noteq> 0
                \<and> strdup_ok env ''rsa''
                \<longrightarrow> algo sg = a \<and> has_signature r = 1 \<and> valid r = 1
                    \<and> algorithm r = Some ''rsa'')"
proof (intro conjI)
  show "algo (read_module_signature (byte_order env) (hb[0 := a])) = a"
    using assms(3) by (simp add: read_module_signature_def)
  show "pg_verify_module_signature env st p' = pg_verify_module_signature env st p"
    using assms(3)
    by (intro pg_verify_module_signature_same_trailer[OF assms(1) assms(2)]) simp_all
  show "\<forall>r. pg_verify_module_signature env st p' = Some r \<longrightarrow>
          error_message r \<noteq> Some ''Unknown public-key algorithm''"
    using error_message_cases by fastforce
next
  let ?f = "body @ hb[0 := a] @ MODULE_SIG_STRING"
  have "algo sg = a \<and> has_signature r = 1 \<and> valid r = 1 \<and> algorithm r = Some ''rsa''"
    if h: "pg_verify_module_signature env st p' = Some r
    \<and> pg_find_module_signature (byte_order env) ?f = (off, Some sg)
    \<and> 0 \<le> off
    \<and> pg_extract_signature (malloc_sig_data_ok env) ?f sg off = Some sig_data
    \<and> hash_switch (hash sg) = Some (hash_algo, name)
    \<and> pg_calculate_module_hash env ?f off hash_algo = Some module_hash
    \<and> en \<in> set (cert_cache st)
    \<and> pg_verify_signature_with_cert env module_hash sig_data (cert en) \<noteq> 0
    \<and> strdup_ok env ''rsa''"
    for r off sg sig_data hash_algo name module_hash en
  proof -
    have l: "length (hb[0 := a]) = 12"
      using assms(3) by simp
    have "sg = read_module_signature (byte_order env) (hb[0 := a])"
      using h find_trailer[OF l, of "byte_order env" body]
      by (auto simp: Let_def split: if_splits)
    then have a: "algo sg = a"
      using assms(3) by (simp add: read_module_signature_def)
    have "has_signature r = 1 \<and> valid r = 1 \<and> algorithm r = strdup env ''rsa''"
      using h by (intro pg_verify_module_signature_accepts[OF _ assms(2), of st r off sg]) auto
    with a h show ?thesis
      by (simp add: strdup_def)
  qed
  then show "\<forall>r off sg sig_data hash_algo name module_hash en.
      pg_verify_module_signature env st p' = Some r
      \<and> pg_find_module_signature (byte_order env) ?f = (off, Some sg)
      \<and> 0 \<le> off
      \<and> pg_extract_signature (malloc_sig_data_ok env) ?f sg off = Some sig_data
      \<and> hash_switch (hash sg) = Some (hash_algo, name)
      \<and> pg_calculate_module_hash env ?f off hash_algo = Some module_hash
      \<and> en \<in> set (cert_cache st)
      \<and> pg_verify_signature_with_cert env module_hash sig_data (cert en) \<noteq> 0
      \<and> strdup_ok env ''rsa''
      \<longrightarrow> algo sg = a \<and> has_signature r = 1 \<and> valid r = 1 \<and> algorithm r = Some ''rsa''"
    by blast
qed

theorem algo_byte_amended_witness:
  "fopen sample_platform ''signed.ko'' =
     Some ([1, 2, 1] @ [0, 2, 1, 0, 0, 0, 0, 0, 1, 0, 0, 0] @ MODULE_SIG_STRING)
   \<and> fopen sample_platform ''algo1.ko'' =
     Some ([1, 2, 1] @ [0, 2, 1, 0, 0, 0, 0, 0, 1, 0, 0, 0][0 := 1] @ MODULE_SIG_STRING)
   \<and> algo (read_module_signature (byte_order sample_platform)
            ([0, 2, 1, 0, 0, 0, 0, 0, 1, 0, 0, 0][0 := 1])) = 1
   \<and> pg_verify_module_signature sample_platform two_certs ''algo1.ko'' =
       pg_verify_module_signature sample_platform two_certs ''signed.ko''
   \<and> pg_verify_module_signature sample_platform two_certs ''algo1.ko'' =
     Some \<lparr> valid = 1, has_signature = 1, signer = Some ''4242424242424242424242424242424242424242424242424242424242424242'',
            algorithm = Some ''rsa'', hash_algorithm = Some ''sha256'', error_message = None,
            signature_offset = 2, signature_size = 1, verification_time = 0 \<rparr>
   \<and> pg_find_module_signature (byte_order sample_platform)
       ([1, 2, 1] @ [0, 2, 1, 0, 0, 0, 0, 0, 1, 0, 0, 0][0 := 1] @ MODULE_SIG_STRING) =
       (2, Some (read_module_signature LittleEndian [1, 2, 1, 0, 0, 0, 0, 0, 1, 0, 0, 0]))
   \<and> pg_extract_signature (malloc_sig_data_ok sample_platform)
       ([1, 2, 1] @ [0, 2, 1, 0, 0, 0, 0, 0, 1, 0, 0, 0][0 := 1] @ MODULE_SIG_STRING)
       (read_module_signature LittleEndian [1, 2, 1, 0, 0, 0, 0, 0, 1, 0, 0, 0]) 2 = Some [1]
   \<and> hash_switch (hash (read_module_signature LittleEndian [1, 2, 1, 0, 0, 0, 0, 0, 1, 0, 0, 0])) =
       Some (EVP_sha256, ''sha256'')
   \<and> pg_calculate_module_hash sample_platform
       ([1, 2, 1] @ [0, 2, 1, 0, 0, 0, 0, 0, 1, 0, 0, 0][0 := 1] @ MODULE_SIG_STRING) 2 EVP_sha256 =
       Some [1]
   \<and> \<lparr>cert = 66, fingerprint = ''4242424242424242424242424242424242424242424242424242424242424242''\<rparr> \<in> set (cert_cache two_certs)
   \<and> pg_verify_signature_with_cert sample_platform [1] [1]
       (cert \<lparr>cert = 66 :: nat, fingerprint = ''4242424242424242424242424242424242424242424242424242424242424242''\<rparr>) \<noteq> 0
   \<and> strdup_ok sample_platform ''rsa''
   \<and> algo (read_module_signature LittleEndian [1, 2, 1, 0, 0, 0, 0, 0, 1, 0, 0, 0]) = 1"
proof -
  have l: "length [0, 2, 1, 0, 0, 0, 0, 0, 1, 0, 0, 0 :: byte] = 12" by simp
  have z: "(0 :: int) \<le> 2" by simp
  note t = algo_byte_amended [OF sample_module_files(1) sample_module_files(2) l, of two_certs]
  let ?r = "\<lparr> valid = 1, has_signature = 1, signer = Some ''4242424242424242424242424242424242424242424242424242424242424242'',
            algorithm = Some ''rsa'', hash_algorithm = Some ''sha256'', error_message = None,
            signature_offset = 2, signature_size = 1, verification_time = 0 \<rparr>"
  from t have tried:
    "algo (read_module_signature LittleEndian [1, 2, 1, 0, 0, 0, 0, 0, 1, 0, 0, 0]) = 1
     \<and> has_signature ?r = 1 \<and> valid ?r = 1 \<and> algorithm ?r = Some ''rsa''"
    using sample_algo1_result sample_algo1_steps z by blast
  show ?thesis
    using t tried sample_module_files(1,2) sample_algo1_result sample_algo1_steps
    by simp
qed

text \<open>
  Claim C8 as stated fails: the verifier never reads the padding bytes. The sample
  module whose trailer byte at offset 5 is 1 is accepted.
\<close>

theorem padding_counterexample:
  "sample_files ''padded.ko'' =
     Some ([1, 2] @ [1] @ [0, 2, 1, 0, 0, 1, 0, 0, 1, 0, 0, 0] @ MODULE_SIG_STRING)
   \<and> pad (read_module_signature LittleEndian [0, 2, 1, 0, 0, 1, 0, 0, 1, 0, 0, 0]) = [1, 0, 0]
   \<and> pg_verify_module_signature sample_platform two_certs ''padded.ko'' =
     Some \<lparr> valid = 1, has_signature = 1, signer = Some ''4242424242424242424242424242424242424242424242424242424242424242'',
            algorithm = Some ''rsa'', hash_algorithm = Some ''sha256'', error_message = None,
            signature_offset = 2, signature_size = 1, verification_time = 0 \<rparr>"
  by code_simp

text \<open>
  Claim C8, amended. For every file whose final 28 bytes equal the magic string,
  replacing the three padding bytes at header offset 5 by any values, zero or not,
  leaves the verify result unchanged: a nonzero padding byte is not an error.
\<close>

theorem padding_amended:
  assumes "fopen env p = Some (body @ hb @ MODULE_SIG_STRING)"
    and "fopen env p' = Some (body @ hb[5 := x, 6 := y, 7 := z] @ MODULE_SIG_STRING)"
    and "length hb = 12"
  shows "pad (read_module_signature (byte_order env) (hb[5 := x, 6 := y, 7 := z])) = [x, y, z]
         \<and> pg_verify_module_signature env st p' = pg_verify_module_signature env st p"
proof
  show "pad (read_module_signature (byte_order env) (hb[5 := x, 6 := y, 7 := z])) = [x, y, z]"
    using assms(3)
    by (simp add: read_module_signature_def list_eq_iff_nth_eq nth_list_update less_Suc_eq
        numeral_3_eq_3)
  show "pg_verify_module_signature env st p' = pg_verify_module_signature env st p"
    using assms(3)
    by (intro pg_verify_module_signature_same_trailer[OF assms(1) assms(2)]) simp_all
qed

theorem padding_amended_witness:
  "fopen sample_platform ''signed.ko'' =
     Some ([1, 2, 1] @ [0, 2, 1, 0, 0, 0, 0, 0, 1, 0, 0, 0] @ MODULE_SIG_STRING)
   \<and> fopen sample_platform ''padded.ko'' =
     Some ([1, 2, 1] @ [0, 2, 1, 0, 0, 0, 0, 0, 1, 0, 0, 0][5 := 1, 6 := 0, 7 := 0] @ MODULE_SIG_STRING)
   \<and> pad (read_module_signature (byte_order sample_platform)
            ([0, 2, 1, 0, 0, 0, 0, 0, 1, 0, 0, 0][5 := 1, 6 := 0, 7 := 0])) = [1, 0, 0]
   \<and> pg_verify_module_signature sample_platform two_certs ''padded.ko'' =
       pg_verify_module_signature sample_platform two_certs ''signed.ko''"
proof -
  have l: "length [0, 2, 1, 0, 0, 0, 0, 0, 1, 0, 0, 0 :: byte] = 12" by simp
  show ?thesis
    using padding_amended [OF sample_module_files(1) sample_module_files(3) l, of two_certs]
      sample_module_files(1,3)
    by simp
qed

subsection \<open>The fingerprint buffer\<close>

lemma sprintf_02x_at_cases:
  "sprintf_02x_at buf off b =
     (if off + 2 < length buf
      then Inr (buf[off := hex_digit (unat b div 16), off + 1 := hex_digit (unat b mod 16),
                    off + 2 := CHR 0x00])
      else Inl (OutOfBounds (max off (length buf))))"
  by (auto simp: sprintf_02x_at_def sprintf_02x_def store_char_def max_def numeral_2_eq_2
      numeral_3_eq_3)

text \<open>
  With 64 characters and 32 digest bytes, the last \<^verbatim>\<open>sprintf\<close> of the loop, at offset
  62, stores its terminator at index 64.
\<close>

lemma fingerprint_loop_overflow:
  "length buf = 64 \<Longrightarrow> i + length bs = 32 \<Longrightarrow> bs \<noteq> [] \<Longrightarrow>
     fingerprint_loop buf i bs = Inl (OutOfBounds 64)"
proof (induction bs arbitrary: buf i)
  case Nil
  then show ?case by simp
next
  case (Cons b bs)
  show ?case
  proof (cases "bs = []")
    case True
    with Cons.prems have "i = 31" by simp
    with Cons.prems True show ?thesis by (simp add: sprintf_02x_at_cases)
  next
    case False
    with Cons.prems have "i * 2 + 2 < 64" by (cases bs) auto
    with Cons.prems False show ?thesis
      by (simp add: sprintf_02x_at_cases Cons.IH)
  qed
qed

text \<open>
  In a buffer with room for the terminator the writes succeed and spell
  \<open>fingerprint_string\<close>, the value that \<open>pg_load_certificate\<close> caches.
\<close>

lemma hex_digit_not_NUL: "n < 16 \<Longrightarrow> hex_digit n \<noteq> CHR 0x00"
proof -
  have "\<forall>n<16. hex_digit n \<noteq> CHR 0x00"
    by code_simp
  then show "n < 16 \<Longrightarrow> hex_digit n \<noteq> CHR 0x00" by blast
qed

lemma sprintf_02x_not_NUL: "CHR 0x00 \<notin> set (sprintf_02x b)"
proof -
  have "unat b < 2 ^ LENGTH(8)" by (rule unsigned_less)
  then have "unat b div 16 < 16" "unat b mod 16 < 16" by auto
  then have "hex_digit (unat b div 16) \<noteq> CHR 0x00" "hex_digit (unat b mod 16) \<noteq> CHR 0x00"
    by (simp_all only: hex_digit_not_NUL not_False_eq_True)
  then show ?thesis
    by (auto simp: sprintf_02x_def)
qed

lemma fingerprint_string_not_NUL: "CHR 0x00 \<notin> set (fingerprint_string md)"
  using sprintf_02x_not_NUL by (auto simp: fingerprint_string_def)

lemma fingerprint_loop_fits:
  "2 * (i + length bs) < length buf \<Longrightarrow>
     \<exists>buf'. fingerprint_loop buf i bs = Inr buf' \<and> length buf' = length buf
        \<and> take (2 * (i + length bs)) buf' = take (2 * i) buf @ fingerprint_string bs"
proof (induction bs arbitrary: buf i)
  case Nil
  then show ?case by (simp add: fingerprint_string_def)
next
  case (Cons b bs)
  let ?buf1 = "buf[i * 2 := hex_digit (unat b div 16), i * 2 + 1 := hex_digit (unat b mod 16),
                   i * 2 + 2 := CHR 0x00]"
  have s: "sprintf_02x_at buf (i * 2) b = Inr ?buf1"
    using Cons.prems by (simp add: sprintf_02x_at_cases)
  have "2 * (Suc i + length bs) < length ?buf1"
    using Cons.prems by simp
  from Cons.IH[OF this] obtain buf' where
    l: "fingerprint_loop ?buf1 (Suc i) bs = Inr buf'" and n: "length buf' = length buf"
    and t: "take (2 * (Suc i + length bs)) buf' = take (2 * Suc i) ?buf1 @ fingerprint_string bs"
    by auto
  have "take (2 * Suc i) ?buf1 = take (2 * i) buf @ sprintf_02x b"
    using Cons.prems
    by (auto simp: list_eq_iff_nth_eq nth_append nth_list_update sprintf_02x_def min_def
        less_Suc_eq nth_Cons')
  with s l n t show ?case
    by (simp add: fingerprint_string_def)
qed

lemma write_fingerprint_fits:
  assumes "2 * length md < length buf"
  shows "\<exists>buf'. write_fingerprint buf (Some md) = Inr buf' \<and> c_string buf' = fingerprint_string md"
proof -
  from fingerprint_loop_fits[of 0 md buf] assms obtain buf' where
    l: "fingerprint_loop buf 0 md = Inr buf'" and n: "length buf' = length buf"
    and t: "take (2 * length md) buf' = fingerprint_string md"
    by auto
  let ?k = "length md * 2"
  have k: "?k < length buf'" using assms n by simp
  have "buf'[?k := CHR 0x00] = take ?k buf' @ CHR 0x00 # drop (Suc ?k) buf'"
    using k by (simp add: upd_conv_take_nth_drop)
  then have "c_string (buf'[?k := CHR 0x00]) = fingerprint_string md"
    using t fingerprint_string_not_NUL[of md]
    by (auto simp: c_string_def mult.commute takeWhile_tail takeWhile_eq_all_conv)
  with l k show ?thesis
    by (simp add: write_fingerprint_def store_char_def)
qed

text \<open>
  Claim C10 does not hold of the code. For a certificate whose SHA-256 digest is
  computed (32 bytes), building the fingerprint in the 64-byte buffer stores a NUL
  character at index 64, one past the end of the buffer: the writes do not all fall
  within its bounds.
\<close>

theorem fingerprint_overflow:
  assumes "length buf = 64" and "length md = 32"
  shows "write_fingerprint buf (Some md) = Inl (OutOfBounds 64)"
proof -
  have "md \<noteq> []" using assms(2) by auto
  then have "fingerprint_loop buf 0 md = Inl (OutOfBounds 64)"
    using assms by (intro fingerprint_loop_overflow) auto
  then show ?thesis by (simp add: write_fingerprint_def)
qed

theorem fingerprint_overflow_witness:
  "length (replicate 64 (CHR ''?'')) = 64 \<and> length (replicate 32 (0xAB :: byte)) = 32 \<and>
   write_fingerprint (replicate 64 (CHR ''?'')) (Some (replicate 32 0xAB)) = Inl (OutOfBounds 64)"
  using fingerprint_overflow[of "replicate 64 (CHR ''?'')" "replicate 32 0xAB"] by simp

end
